theory Spec2Isabelle
  imports Main "HOL-Library.Char_ord" "HOL-Library.List_Lexorder" "HOL-Library.Multiset"
begin

section \<open>The inventory ledger of main.py\<close>

text \<open>
  main.py keeps two SQLite tables, \<open>items\<close> and \<open>stock_history\<close>, and offers three
  tools over them. The two tools modelled here are \<open>change_item_stock\<close> (lines 79-99) and
  \<open>get_stock_history_by_date\<close> (lines 102-124).

  Python strings are modelled by their UTF-8 encoding (\<open>string\<close> is a list of bytes), so
  concatenation and SQLite's bytewise comparison of TEXT values are those of the program.
  Python integers are \<open>int\<close>. An INTEGER column of SQLite holds a signed 64-bit value, and
  the sqlite3 module raises OverflowError when a Python integer outside that range is bound
  to a statement; whether it is raised depends only on the arguments of the call and on
  the stored values, and it is a branch of the model. Failures of the environment (a
  locked or full database file) are not modelled.

  The clock (\<open>pendulum.now().to_datetime_string()\<close>, line 93) and the date parser
  (\<open>pendulum.parse\<close> with \<open>start_of\<close>, \<open>end_of\<close>, lines 108-109) belong to a library
  outside the repository: the reading of the clock is the argument \<open>now\<close>, the parser is
  the argument \<open>day_range\<close>.
\<close>

subsection \<open>Tables\<close>

text \<open>
  The rows of \<open>items\<close> (lines 30-37). The columns are prefixed with \<open>item_\<close> because both
  tables have a \<open>created_at\<close> column.
\<close>

record item =
  item_id :: int
  item_name :: string
  item_price :: int
  item_stock :: int
  item_created_at :: string
  item_updated_at :: string

text \<open>
  The rows of \<open>stock_history\<close> (lines 39-46). \<open>reason\<close> is the only column without
  NOT NULL. The table is a list in insertion order; the AUTOINCREMENT \<open>id\<close>, which no
  statement of the program reads, is the position of a row in it.
\<close>

record event =
  hist_item_id :: int
  hist_delta :: int
  hist_reason :: "string option"
  hist_created_at :: string

record db =
  items :: "item list"
  stock_history :: "event list"

text \<open>The range of an INTEGER value of SQLite.\<close>

definition int64 :: "int \<Rightarrow> bool" where
  "int64 i \<longleftrightarrow> - (2 ^ 63) \<le> i \<and> i < 2 ^ 63"

text \<open>
  What the schema and the data model guarantee of a database: every INTEGER column holds a
  64-bit value, \<open>items.id\<close> is a PRIMARY KEY, and every event refers to an item.
\<close>

definition sqlite_integers :: "db \<Rightarrow> bool" where
  "sqlite_integers d \<longleftrightarrow>
     list_all (\<lambda>r. int64 (item_id r) \<and> int64 (item_price r) \<and> int64 (item_stock r)) (items d) \<and>
     list_all (\<lambda>h. int64 (hist_item_id h) \<and> int64 (hist_delta h)) (stock_history d)"

definition primary_key :: "db \<Rightarrow> bool" where
  "primary_key d \<longleftrightarrow> distinct (map item_id (items d))"

definition references_ok :: "db \<Rightarrow> bool" where
  "references_ok d \<longleftrightarrow>
     list_all (\<lambda>h. list_ex (\<lambda>r. item_id r = hist_item_id h) (items d)) (stock_history d)"

subsection \<open>Connections\<close>

text \<open>
  The statements the program sends to SQLite, with their bound parameters: line 83, line 94,
  lines 95-96, lines 112-118 and line 97.
\<close>

datatype stmt =
  SelectItemByName string
  | UpdateItemStock int string int
  | InsertStockHistory int int string string
  | SelectHistoryBetween string string
  | Commit

datatype exn = OverflowError

text \<open>
  A connection sees its own uncommitted writes (\<open>working\<close>); every other connection sees
  the database as last committed (\<open>committed\<close>). \<open>issued\<close> records each statement the
  connection has executed, together with the committed database right after it.
\<close>

record conn =
  committed :: db
  working :: db
  issued :: "(stmt \<times> db) list"

definition connect :: "db \<Rightarrow> conn" where
  "connect d = \<lparr>committed = d, working = d, issued = []\<rparr>"

definition executed :: "stmt \<Rightarrow> conn \<Rightarrow> conn" where
  "executed s c = c\<lparr>issued := issued c @ [(s, committed c)]\<rparr>"

text \<open>\<open>conn.commit()\<close>: the pending writes become the committed database.\<close>

definition commit :: "conn \<Rightarrow> conn" where
  "commit c = (let c' = c\<lparr>committed := working c\<rparr> in executed Commit c')"

text \<open>\<open>conn.close()\<close>: writes that were not committed are lost.\<close>

definition close :: "conn \<Rightarrow> conn" where
  "close c = c\<lparr>working := committed c\<rparr>"

text \<open>
  Line 83-84: \<open>SELECT id, stock FROM items WHERE name=?\<close> and \<open>fetchone()\<close>, the first
  matching row or None.
\<close>

definition select_item :: "conn \<Rightarrow> string \<Rightarrow> (int \<times> int) option \<times> conn" where
  "select_item c name =
     (map_option (\<lambda>r. (item_id r, item_stock r))
        (find (\<lambda>r. item_name r = name) (items (working c))),
      executed (SelectItemByName name) c)"

text \<open>
  Line 94: \<open>UPDATE items SET stock=?, updated_at=? WHERE id=?\<close>. Binding an integer
  outside the 64-bit range raises before the statement runs.
\<close>

definition update_item_stock :: "conn \<Rightarrow> int \<Rightarrow> string \<Rightarrow> int \<Rightarrow> exn + conn" where
  "update_item_stock c new_stock now iid =
     (if int64 new_stock \<and> int64 iid then
        Inr (executed (UpdateItemStock new_stock now iid)
          (c\<lparr>working := (working c)\<lparr>items :=
             map (\<lambda>r. if item_id r = iid
                       then r\<lparr>item_stock := new_stock, item_updated_at := now\<rparr> else r)
               (items (working c))\<rparr>\<rparr>))
      else Inl OverflowError)"

text \<open>
  Lines 95-96: \<open>INSERT INTO stock_history (item_id, delta, reason, created_at)\<close>. SQLite
  does not enforce the FOREIGN KEY clause unless asked to, and the program does not ask.
\<close>

definition insert_stock_history :: "conn \<Rightarrow> int \<Rightarrow> int \<Rightarrow> string \<Rightarrow> string \<Rightarrow> exn + conn" where
  "insert_stock_history c iid delta reason now =
     (if int64 iid \<and> int64 delta then
        Inr (executed (InsertStockHistory iid delta reason now)
          (c\<lparr>working := (working c)\<lparr>stock_history :=
             stock_history (working c) @
               [\<lparr>hist_item_id = iid, hist_delta = delta, hist_reason = Some reason,
                 hist_created_at = now\<rparr>]\<rparr>\<rparr>))
      else Inl OverflowError)"

text \<open>
  Lines 112-119: the join of \<open>stock_history\<close> with \<open>items\<close> on the item id, restricted to
  the events whose \<open>created_at\<close> lies BETWEEN the two bounds (inclusive, TEXT values
  compared bytewise), ordered by \<open>created_at\<close> ascending. Rows with equal \<open>created_at\<close>
  keep their insertion order here; SQL leaves their order open.
\<close>

type_synonym history_row = "string \<times> int \<times> string option \<times> string"

definition select_history :: "conn \<Rightarrow> string \<Rightarrow> string \<Rightarrow> history_row list \<times> conn" where
  "select_history c start end =
     (sort_key (\<lambda>(n, dl, r, t). t)
        (concat (map (\<lambda>h. map (\<lambda>i. (item_name i, hist_delta h, hist_reason h, hist_created_at h))
                               (filter (\<lambda>i. hist_item_id h = item_id i) (items (working c))))
                     (filter (\<lambda>h. start \<le> hist_created_at h \<and> hist_created_at h \<le> end)
                        (stock_history (working c))))),
      executed (SelectHistoryBetween start end) c)"

subsection \<open>Formatting\<close>

text \<open>Python's \<open>str\<close> of an integer, as the f-strings apply it.\<close>

definition digit :: "nat \<Rightarrow> char" where
  "digit n = ''0123456789'' ! n"

function str_nat :: "nat \<Rightarrow> string" where
  "str_nat n = (if n < 10 then [digit n] else str_nat (n div 10) @ [digit (n mod 10)])"
  by pat_completeness auto
termination
  by (relation "measure (\<lambda>n. n)") auto

declare str_nat.simps [simp del]

definition str_int :: "int \<Rightarrow> string" where
  "str_int i = (if i < 0 then CHR ''-'' # str_nat (nat (- i)) else str_nat (nat i))"

text \<open>
  Python's \<open>x or d\<close> on an optional string: None and the empty string are both false.
\<close>

definition or_else :: "string option \<Rightarrow> string \<Rightarrow> string" where
  "or_else x d = (case x of None \<Rightarrow> d | Some s \<Rightarrow> if s = [] then d else s)"

text \<open>\<open>"\n".join(result)\<close>, line 124.\<close>

fun join_lines :: "string list \<Rightarrow> string" where
  "join_lines [] = []"
| "join_lines [l] = l"
| "join_lines (l # m # ls) = l @ CHR 0x0A # join_lines (m # ls)"

text \<open>
  The literal parts of the messages are Korean; each is given by its UTF-8 bytes, with a
  romanisation.
\<close>

text \<open>line 87, after the quoted name: ''(eul)reul chajeul su eopsseumnida.'' (cannot be found).\<close>

definition not_found_tail :: string where
  "not_found_tail =
    [CHR 0x28, CHR 0xEC, CHR 0x9D, CHR 0x84, CHR 0x29, CHR 0xEB, CHR 0xA5, CHR 0xBC,
      CHR 0x20, CHR 0xEC, CHR 0xB0, CHR 0xBE, CHR 0xEC, CHR 0x9D, CHR 0x84, CHR 0x20,
      CHR 0xEC, CHR 0x88, CHR 0x98, CHR 0x20, CHR 0xEC, CHR 0x97, CHR 0x86, CHR 0xEC,
      CHR 0x8A, CHR 0xB5, CHR 0xEB, CHR 0x8B, CHR 0x88, CHR 0xEB, CHR 0x8B, CHR 0xA4,
      CHR 0x2E]"

text \<open>line 92, before the stock: ''jaego bujok! hyeonjae jaego: '' (insufficient stock, current stock).\<close>

definition insufficient_head :: string where
  "insufficient_head =
    [CHR 0xEC, CHR 0x9E, CHR 0xAC, CHR 0xEA, CHR 0xB3, CHR 0xA0, CHR 0x20, CHR 0xEB,
      CHR 0xB6, CHR 0x80, CHR 0xEC, CHR 0xA1, CHR 0xB1, CHR 0x21, CHR 0x20, CHR 0xED,
      CHR 0x98, CHR 0x84, CHR 0xEC, CHR 0x9E, CHR 0xAC, CHR 0x20, CHR 0xEC, CHR 0x9E,
      CHR 0xAC, CHR 0xEA, CHR 0xB3, CHR 0xA0, CHR 0x3A, CHR 0x20]"

text \<open>the counter word ''gae'' (pieces), U+AC1C.\<close>

definition counter_gae :: string where
  "counter_gae =
    [CHR 0xEA, CHR 0xB0, CHR 0x9C]"

text \<open>line 99, after the quoted name: '' jaegoga '' (the stock).\<close>

definition changed_1 :: string where
  "changed_1 =
    [CHR 0x20, CHR 0xEC, CHR 0x9E, CHR 0xAC, CHR 0xEA, CHR 0xB3, CHR 0xA0, CHR 0xEA,
      CHR 0xB0, CHR 0x80, CHR 0x20]"

text \<open>line 99, between the two stock values: ''gae'', space, U+2192 (rightwards arrow), space.\<close>

definition changed_2 :: string where
  "changed_2 =
    [CHR 0xEA, CHR 0xB0, CHR 0x9C, CHR 0x20, CHR 0xE2, CHR 0x86, CHR 0x92, CHR 0x20]"

text \<open>line 99, before the delta: ''gaero byeongyeongdoeeotsseumnida. (byeondong: '' (has been changed, change).\<close>

definition changed_3 :: string where
  "changed_3 =
    [CHR 0xEA, CHR 0xB0, CHR 0x9C, CHR 0xEB, CHR 0xA1, CHR 0x9C, CHR 0x20, CHR 0xEB,
      CHR 0xB3, CHR 0x80, CHR 0xEA, CHR 0xB2, CHR 0xBD, CHR 0xEB, CHR 0x90, CHR 0x98,
      CHR 0xEC, CHR 0x97, CHR 0x88, CHR 0xEC, CHR 0x8A, CHR 0xB5, CHR 0xEB, CHR 0x8B,
      CHR 0x88, CHR 0xEB, CHR 0x8B, CHR 0xA4, CHR 0x2E, CHR 0x20, CHR 0x28, CHR 0xEB,
      CHR 0xB3, CHR 0x80, CHR 0xEB, CHR 0x8F, CHR 0x99, CHR 0x3A, CHR 0x20]"

text \<open>line 99, before the reason: '', sayu: '' (reason).\<close>

definition changed_4 :: string where
  "changed_4 =
    [CHR 0x2C, CHR 0x20, CHR 0xEC, CHR 0x82, CHR 0xAC, CHR 0xEC, CHR 0x9C, CHR 0xA0,
      CHR 0x3A, CHR 0x20]"

text \<open>line 111: ''naljja hyeongsigi jalmotdoeeotsseumnida. YYYY-MM-DDro imnyeokhaseyo.'' (the date format is wrong, enter it as YYYY-MM-DD).\<close>

definition invalid_date_msg :: string where
  "invalid_date_msg =
    [CHR 0xEB, CHR 0x82, CHR 0xA0, CHR 0xEC, CHR 0xA7, CHR 0x9C, CHR 0x20, CHR 0xED,
      CHR 0x98, CHR 0x95, CHR 0xEC, CHR 0x8B, CHR 0x9D, CHR 0xEC, CHR 0x9D, CHR 0xB4,
      CHR 0x20, CHR 0xEC, CHR 0x9E, CHR 0x98, CHR 0xEB, CHR 0xAA, CHR 0xBB, CHR 0xEB,
      CHR 0x90, CHR 0x98, CHR 0xEC, CHR 0x97, CHR 0x88, CHR 0xEC, CHR 0x8A, CHR 0xB5,
      CHR 0xEB, CHR 0x8B, CHR 0x88, CHR 0xEB, CHR 0x8B, CHR 0xA4, CHR 0x2E, CHR 0x20,
      CHR 0x59, CHR 0x59, CHR 0x59, CHR 0x59, CHR 0x2D, CHR 0x4D, CHR 0x4D, CHR 0x2D,
      CHR 0x44, CHR 0x44, CHR 0xEB, CHR 0xA1, CHR 0x9C, CHR 0x20, CHR 0xEC, CHR 0x9E,
      CHR 0x85, CHR 0xEB, CHR 0xA0, CHR 0xA5, CHR 0xED, CHR 0x95, CHR 0x98, CHR 0xEC,
      CHR 0x84, CHR 0xB8, CHR 0xEC, CHR 0x9A, CHR 0x94, CHR 0x2E]"

text \<open>line 122, after the date: ''ui jaego byeondong naeyeogi eopsseumnida.'' (has no stock change history).\<close>

definition no_history_tail :: string where
  "no_history_tail =
    [CHR 0xEC, CHR 0x9D, CHR 0x98, CHR 0x20, CHR 0xEC, CHR 0x9E, CHR 0xAC, CHR 0xEA,
      CHR 0xB3, CHR 0xA0, CHR 0x20, CHR 0xEB, CHR 0xB3, CHR 0x80, CHR 0xEB, CHR 0x8F,
      CHR 0x99, CHR 0x20, CHR 0xEB, CHR 0x82, CHR 0xB4, CHR 0xEC, CHR 0x97, CHR 0xAD,
      CHR 0xEC, CHR 0x9D, CHR 0xB4, CHR 0x20, CHR 0xEC, CHR 0x97, CHR 0x86, CHR 0xEC,
      CHR 0x8A, CHR 0xB5, CHR 0xEB, CHR 0x8B, CHR 0x88, CHR 0xEB, CHR 0x8B, CHR 0xA4,
      CHR 0x2E]"

text \<open>line 123, before the delta: '' | byeonhwaryang: '' (amount of change).\<close>

definition line_1 :: string where
  "line_1 =
    [CHR 0x20, CHR 0x7C, CHR 0x20, CHR 0xEB, CHR 0xB3, CHR 0x80, CHR 0xED, CHR 0x99,
      CHR 0x94, CHR 0xEB, CHR 0x9F, CHR 0x89, CHR 0x3A, CHR 0x20]"

text \<open>line 123, before the reason: '' | sayu: '' (reason).\<close>

definition line_2 :: string where
  "line_2 =
    [CHR 0x20, CHR 0x7C, CHR 0x20, CHR 0xEC, CHR 0x82, CHR 0xAC, CHR 0xEC, CHR 0x9C,
      CHR 0xA0, CHR 0x3A, CHR 0x20]"

text \<open>Line 87: the quoted name and the tail.\<close>

definition not_found_msg :: "string \<Rightarrow> string" where
  "not_found_msg name = [CHR 0x27] @ name @ [CHR 0x27] @ not_found_tail"

text \<open>Line 92.\<close>

definition insufficient_msg :: "int \<Rightarrow> string" where
  "insufficient_msg stock = insufficient_head @ str_int stock @ counter_gae"

text \<open>Line 99; the last argument is \<open>reason or '-'\<close>. The message ends with a space and \<open>)\<close>.\<close>

definition changed_msg :: "string \<Rightarrow> int \<Rightarrow> int \<Rightarrow> int \<Rightarrow> string \<Rightarrow> string" where
  "changed_msg name stock new_stock delta shown =
     [CHR 0x27] @ name @ [CHR 0x27] @ changed_1 @ str_int stock @ changed_2 @
     str_int new_stock @ changed_3 @ str_int delta @ changed_4 @ shown @ '' )''"

text \<open>Line 122.\<close>

definition no_history_msg :: "string \<Rightarrow> string" where
  "no_history_msg date = date @ no_history_tail"

text \<open>Line 123, one element of the list comprehension.\<close>

definition format_line :: "history_row \<Rightarrow> string" where
  "format_line row =
     (case row of (n, dl, r, t) \<Rightarrow>
        ''['' @ t @ ''] '' @ n @ line_1 @ str_int dl @ line_2 @ or_else r ''-'')"

subsection \<open>The tools\<close>

text \<open>
  What a call leaves behind: the string it returns or the exception it raises, the
  database as committed when the call is over, and the statements it executed.
\<close>

record outcome =
  result :: "exn + string"
  store :: db
  trace :: "(stmt \<times> db) list"

definition returned :: "conn \<Rightarrow> string \<Rightarrow> outcome" where
  "returned c msg = \<lparr>result = Inr msg, store = committed c, trace = issued c\<rparr>"

text \<open>
  An exception leaves the function with the connection open; the connection is dropped
  and its pending writes are rolled back.
\<close>

definition raised :: "conn \<Rightarrow> exn \<Rightarrow> outcome" where
  "raised c e = \<lparr>result = Inl e, store = committed c, trace = issued c\<rparr>"

text \<open>Lines 79-99. \<open>reason\<close> is None when the caller leaves it out.\<close>

definition change_item_stock :: "string \<Rightarrow> db \<Rightarrow> string \<Rightarrow> int \<Rightarrow> string option \<Rightarrow> outcome" where
  "change_item_stock now d name delta reason =
     (let c = connect d;
          (row, c) = select_item c name
      in case row of
           None \<Rightarrow> returned (close c) (not_found_msg name)
         | Some (iid, stock) \<Rightarrow>
             let new_stock = stock + delta in
             if new_stock < 0 then returned (close c) (insufficient_msg stock)
             else
               (case update_item_stock c new_stock now iid of
                  Inl e \<Rightarrow> raised c e
                | Inr c \<Rightarrow>
                    (case insert_stock_history c iid delta (or_else reason []) now of
                       Inl e \<Rightarrow> raised c e
                     | Inr c \<Rightarrow>
                         returned (close (commit c))
                           (changed_msg name stock new_stock delta (or_else reason ''-'')))))"

text \<open>
  Lines 102-124. \<open>day_range date\<close> is \<open>Some (start, end)\<close> when lines 108-109 compute the
  two bounds, and None when one of them raises (any exception is caught at line 110).
  On that path the function returns without closing the connection.
\<close>

definition get_stock_history_by_date ::
  "(string \<Rightarrow> (string \<times> string) option) \<Rightarrow> db \<Rightarrow> string \<Rightarrow> outcome" where
  "get_stock_history_by_date day_range d date =
     (let c = connect d in
      case day_range date of
        None \<Rightarrow> returned c invalid_date_msg
      | Some (start, end) \<Rightarrow>
          let (rows, c) = select_history c start end in
          if rows = [] then returned (close c) (no_history_msg date)
          else returned (close c) (join_lines (map format_line rows)))"

text \<open>
  A sequence of calls of \<open>change_item_stock\<close>, each with its reading of the clock; the
  database of a call is the one the call before left.
\<close>

type_synonym call = "string \<times> string \<times> int \<times> string option"

fun run_calls :: "db \<Rightarrow> call list \<Rightarrow> db" where
  "run_calls d [] = d"
| "run_calls d ((now, name, delta, reason) # cs) =
     run_calls (store (change_item_stock now d name delta reason)) cs"

subsection \<open>The seeded database\<close>

text \<open>
  The three item names of lines 53-57, by their UTF-8 bytes: ``noteubuk'' (notebook),
  ``mauseu'' (mouse) and ``kibodeu'' (keyboard).
\<close>

definition name_notebook :: string where
  "name_notebook =
    [CHR 0xEB, CHR 0x85, CHR 0xB8, CHR 0xED, CHR 0x8A, CHR 0xB8, CHR 0xEB, CHR 0xB6, CHR 0x81]"

definition name_mouse :: string where
  "name_mouse =
    [CHR 0xEB, CHR 0xA7, CHR 0x88, CHR 0xEC, CHR 0x9A, CHR 0xB0, CHR 0xEC, CHR 0x8A, CHR 0xA4]"

definition name_keyboard :: string where
  "name_keyboard =
    [CHR 0xED, CHR 0x82, CHR 0xA4, CHR 0xEB, CHR 0xB3, CHR 0xB4, CHR 0xEB, CHR 0x93, CHR 0x9C]"

definition seed_item :: "int \<Rightarrow> string \<Rightarrow> int \<Rightarrow> int \<Rightarrow> string \<Rightarrow> item" where
  "seed_item i n p s now =
     \<lparr>item_id = i, item_name = n, item_price = p, item_stock = s,
      item_created_at = now, item_updated_at = now\<rparr>"

text \<open>
  Lines 49-58 of \<open>init_db\<close>: when \<open>items\<close> is empty, three rows are inserted, which
  AUTOINCREMENT numbers from 1 in a new table.
\<close>

definition init_db :: "string \<Rightarrow> db \<Rightarrow> db" where
  "init_db now d =
     (if length (items d) = 0 then
        d\<lparr>items :=
            [seed_item 1 name_notebook 1200000 10 now,
             seed_item 2 name_mouse 25000 50 now,
             seed_item 3 name_keyboard 70000 30 now]\<rparr>
      else d)"

definition empty_db :: db where
  "empty_db = \<lparr>items = [], stock_history = []\<rparr>"

subsection \<open>Notions of the specification\<close>

text \<open>
  The database with both writes of an adjustment applied: the stock and \<open>updated_at\<close> of
  the item, and the event appended to the history.
\<close>

definition both_writes :: "db \<Rightarrow> int \<Rightarrow> int \<Rightarrow> int \<Rightarrow> string \<Rightarrow> string \<Rightarrow> db" where
  "both_writes d iid new_stock delta reason now =
     d\<lparr>items := map (\<lambda>r. if item_id r = iid
                          then r\<lparr>item_stock := new_stock, item_updated_at := now\<rparr> else r)
                  (items d),
       stock_history := stock_history d @
         [\<lparr>hist_item_id = iid, hist_delta = delta, hist_reason = Some reason,
           hist_created_at = now\<rparr>]\<rparr>"

text \<open>The deltas of all events recorded for an item.\<close>

definition recorded_deltas :: "db \<Rightarrow> int \<Rightarrow> int list" where
  "recorded_deltas d iid = map hist_delta (filter (\<lambda>h. hist_item_id h = iid) (stock_history d))"

text \<open>
  The invariant of the ledger: the stock of every item is its initial stock plus the sum
  of the deltas recorded for it. \<open>initial\<close> gives the stock each item was created with.
\<close>

definition ledger_ok :: "(int \<Rightarrow> int) \<Rightarrow> db \<Rightarrow> bool" where
  "ledger_ok initial d \<longleftrightarrow>
     list_all (\<lambda>r. item_stock r = initial (item_id r) + sum_list (recorded_deltas d (item_id r)))
       (items d)"

text \<open>
  The entry the history shows for an event: the name of the item the event refers to, as
  the \<open>items\<close> table has it when the query runs, with the delta, the reason and the
  timestamp of the event.
\<close>

definition resolved_name :: "db \<Rightarrow> int \<Rightarrow> string" where
  "resolved_name d iid =
     (case find (\<lambda>r. item_id r = iid) (items d) of None \<Rightarrow> [] | Some r \<Rightarrow> item_name r)"

definition entry :: "db \<Rightarrow> event \<Rightarrow> history_row" where
  "entry d h = (resolved_name d (hist_item_id h), hist_delta h, hist_reason h, hist_created_at h)"

text \<open>The events of a day: \<open>created_at\<close> within the inclusive range of the two bounds.\<close>

definition in_range :: "string \<Rightarrow> string \<Rightarrow> event \<Rightarrow> bool" where
  "in_range start stop h \<longleftrightarrow> start \<le> hist_created_at h \<and> hist_created_at h \<le> stop"

subsection \<open>Calendar dates and the date parser\<close>











subsection \<open>Sample data\<close>

text \<open>The seeded database of a first start at nine o'clock on 1 May 2024.\<close>

definition shop :: db where
  "shop = init_db ''2024-05-01 09:00:00'' empty_db"

text \<open>
  A database whose only item is on back order (the schema has no CHECK on \<open>stock\<close>).
\<close>

definition backorder :: db where
  "backorder =
     \<lparr>items = [seed_item 1 ''crate'' 100 (- 10) ''2024-05-01 09:00:00''], stock_history = []\<rparr>"

text \<open>The seeded database with three events, the later one of 1 May stored first.\<close>

definition busy_shop :: db where
  "busy_shop =
     shop\<lparr>stock_history :=
       [\<lparr>hist_item_id = 2, hist_delta = - 5, hist_reason = Some ''sale'',
         hist_created_at = ''2024-05-01 10:00:00''\<rparr>,
        \<lparr>hist_item_id = 3, hist_delta = 3, hist_reason = Some [],
         hist_created_at = ''2024-05-01 08:30:00''\<rparr>,
        \<lparr>hist_item_id = 1, hist_delta = - 1, hist_reason = None,
         hist_created_at = ''2024-05-02 11:00:00''\<rparr>]\<rparr>"

text \<open>A date parser that knows one day.\<close>

definition may_first :: "string \<Rightarrow> (string \<times> string) option" where
  "may_first date =
     (if date = ''2024-05-01'' then Some (''2024-05-01 00:00:00'', ''2024-05-01 23:59:59'')
      else None)"

text \<open>The stock each seeded item is created with (lines 53-57).\<close>

definition seed_stock :: "int \<Rightarrow> int" where
  "seed_stock i = (if i = 1 then 10 else if i = 2 then 50 else 30)"


section \<open>Case analysis of the two tools\<close>

subsection \<open>The exits of \<open>change_item_stock\<close>\<close>

lemma find_by_name: "find P xs = Some x \<Longrightarrow> x \<in> set xs \<and> P x"
  by (induction xs) (auto split: if_splits)

lemma change_not_found:
  "find (\<lambda>r. item_name r = name) (items d) = None \<Longrightarrow>
   change_item_stock now d name delta reason =
     \<lparr>result = Inr (not_found_msg name), store = d, trace = [(SelectItemByName name, d)]\<rparr>"
  by (simp add: change_item_stock_def connect_def select_item_def executed_def returned_def close_def)

lemma change_insufficient:
  "find (\<lambda>r. item_name r = name) (items d) = Some it \<Longrightarrow> item_stock it + delta < 0 \<Longrightarrow>
   change_item_stock now d name delta reason =
     \<lparr>result = Inr (insufficient_msg (item_stock it)), store = d,
      trace = [(SelectItemByName name, d)]\<rparr>"
  by (simp add: change_item_stock_def connect_def select_item_def executed_def returned_def close_def)

lemma change_success:
  "find (\<lambda>r. item_name r = name) (items d) = Some it \<Longrightarrow> 0 \<le> item_stock it + delta \<Longrightarrow>
   int64 (item_stock it + delta) \<Longrightarrow> int64 (item_id it) \<Longrightarrow> int64 delta \<Longrightarrow>
   change_item_stock now d name delta reason =
     \<lparr>result = Inr (changed_msg name (item_stock it) (item_stock it + delta) delta (or_else reason ''-'')),
      store = both_writes d (item_id it) (item_stock it + delta) delta (or_else reason []) now,
      trace = [(SelectItemByName name, d),
               (UpdateItemStock (item_stock it + delta) now (item_id it), d),
               (InsertStockHistory (item_id it) delta (or_else reason []) now, d),
               (Commit, both_writes d (item_id it) (item_stock it + delta) delta (or_else reason []) now)]\<rparr>"
  by (simp add: change_item_stock_def connect_def select_item_def executed_def returned_def close_def
      update_item_stock_def insert_stock_history_def commit_def both_writes_def Let_def)

lemma change_overflow:
  "find (\<lambda>r. item_name r = name) (items d) = Some it \<Longrightarrow> 0 \<le> item_stock it + delta \<Longrightarrow>
   \<not> (int64 (item_stock it + delta) \<and> int64 (item_id it) \<and> int64 delta) \<Longrightarrow>
   change_item_stock now d name delta reason =
     \<lparr>result = Inl OverflowError, store = d,
      trace = (if int64 (item_stock it + delta) \<and> int64 (item_id it)
               then [(SelectItemByName name, d),
                     (UpdateItemStock (item_stock it + delta) now (item_id it), d)]
               else [(SelectItemByName name, d)])\<rparr>"
  by (auto simp add: change_item_stock_def connect_def select_item_def executed_def raised_def
      update_item_stock_def insert_stock_history_def Let_def)

subsection \<open>The ledger invariant\<close>

lemma recorded_deltas_both_writes:
  "recorded_deltas (both_writes d iid ns delta reason now) i =
     recorded_deltas d i @ (if iid = i then [delta] else [])"
  by (simp add: recorded_deltas_def both_writes_def)

lemma both_writes_ledger:
  assumes ok: "ledger_ok initial d"
    and it: "it \<in> set (items d)"
  shows "ledger_ok initial (both_writes d (item_id it) (item_stock it + delta) delta reason now)"
proof -
  have base: "item_stock it = initial (item_id it) + sum_list (recorded_deltas d (item_id it))"
    using ok it by (simp add: ledger_ok_def list_all_iff)
  have each: "\<And>r. r \<in> set (items d) \<Longrightarrow>
      item_stock r = initial (item_id r) + sum_list (recorded_deltas d (item_id r))"
    using ok by (simp add: ledger_ok_def list_all_iff)
  show ?thesis
    unfolding ledger_ok_def list_all_iff recorded_deltas_both_writes
    using base each by (auto simp add: both_writes_def)
qed

lemma change_store_cases:
  "store (change_item_stock now d name delta reason) = d \<or>
   (\<exists>it. find (\<lambda>r. item_name r = name) (items d) = Some it \<and> 0 \<le> item_stock it + delta \<and>
      int64 (item_stock it + delta) \<and> int64 (item_id it) \<and> int64 delta \<and>
      store (change_item_stock now d name delta reason) =
        both_writes d (item_id it) (item_stock it + delta) delta (or_else reason []) now)"
proof (cases "find (\<lambda>r. item_name r = name) (items d)")
  case None
  then show ?thesis by (simp add: change_not_found)
next
  case (Some it)
  show ?thesis
  proof (cases "item_stock it + delta < 0")
    case True
    with Some show ?thesis by (simp add: change_insufficient)
  next
    case False
    then have nn: "0 \<le> item_stock it + delta" by simp
    show ?thesis
    proof (cases "int64 (item_stock it + delta) \<and> int64 (item_id it) \<and> int64 delta")
      case True
      with Some nn show ?thesis by (simp add: change_success)
    next
      case False
      with Some nn show ?thesis by (simp add: change_overflow)
    qed
  qed
qed

lemma change_preserves_ledger:
  assumes "ledger_ok initial d"
  shows "ledger_ok initial (store (change_item_stock now d name delta reason))"
proof -
  from change_store_cases [of now d name delta reason]
  show ?thesis
  proof
    assume "store (change_item_stock now d name delta reason) = d"
    with assms show ?thesis by simp
  next
    assume "\<exists>it. find (\<lambda>r. item_name r = name) (items d) = Some it \<and> 0 \<le> item_stock it + delta \<and>
      int64 (item_stock it + delta) \<and> int64 (item_id it) \<and> int64 delta \<and>
      store (change_item_stock now d name delta reason) =
        both_writes d (item_id it) (item_stock it + delta) delta (or_else reason []) now"
    then obtain it where f: "find (\<lambda>r. item_name r = name) (items d) = Some it"
      and st: "store (change_item_stock now d name delta reason) =
        both_writes d (item_id it) (item_stock it + delta) delta (or_else reason []) now"
      by blast
    from f have "it \<in> set (items d)" by (simp add: find_by_name)
    with assms st show ?thesis by (simp add: both_writes_ledger)
  qed
qed

lemma run_calls_ledger:
  "ledger_ok initial d \<Longrightarrow> ledger_ok initial (run_calls d cs)"
proof (induction cs arbitrary: d)
  case Nil
  then show ?case by simp
next
  case (Cons c cs)
  obtain now name delta reason where c: "c = (now, name, delta, reason)"
    by (cases c) auto
  show ?case
    unfolding c run_calls.simps
    by (rule Cons.IH) (rule change_preserves_ledger [OF Cons.prems])
qed

subsection \<open>The history query\<close>


lemma history_parsed:
  "day_range date = Some (start, stop) \<Longrightarrow>
   get_stock_history_by_date day_range d date =
     \<lparr>result = Inr (let rows = fst (select_history (connect d) start stop) in
                     if rows = [] then no_history_msg date
                     else join_lines (map format_line rows)),
      store = d, trace = [(SelectHistoryBetween start stop, d)]\<rparr>"
  by (simp add: get_stock_history_by_date_def connect_def returned_def select_history_def
      executed_def close_def Let_def)

lemma no_history_not_invalid: "no_history_msg date \<noteq> invalid_date_msg"
proof
  assume "no_history_msg date = invalid_date_msg"
  then have "rev (no_history_msg date) = rev invalid_date_msg" by simp
  then show False
    by (simp add: no_history_msg_def no_history_tail_def invalid_date_msg_def)
qed

lemma no_history_not_empty: "no_history_msg date \<noteq> []"
  by (simp add: no_history_msg_def no_history_tail_def)




lemma filter_by_key:
  "distinct (map item_id xs) \<Longrightarrow> find (\<lambda>r. item_id r = k) xs = Some x \<Longrightarrow>
   filter (\<lambda>i. k = item_id i) xs = [x]"
proof (induction xs)
  case Nil
  then show ?case by simp
next
  case (Cons a xs)
  show ?case
  proof (cases "item_id a = k")
    case True
    with Cons.prems have ax: "a = x" by simp
    from Cons.prems True have "k \<notin> item_id ` set xs" by auto
    then have "\<forall>i \<in> set xs. item_id i \<noteq> k" by (auto simp add: image_iff)
    then have "filter (\<lambda>i. k = item_id i) xs = []" by (auto simp add: filter_empty_conv)
    with True ax show ?thesis by simp
  next
    case False
    with Cons show ?thesis by auto
  qed
qed

lemma find_exists: "list_ex P xs \<Longrightarrow> \<exists>x. find P xs = Some x"
  by (induction xs) auto

lemma join_one:
  assumes pk: "primary_key d" and h: "list_ex (\<lambda>r. item_id r = hist_item_id h) (items d)"
  shows "map (\<lambda>i. (item_name i, hist_delta h, hist_reason h, hist_created_at h))
           (filter (\<lambda>i. hist_item_id h = item_id i) (items d)) = [entry d h]"
proof -
  from h obtain x where x: "find (\<lambda>r. item_id r = hist_item_id h) (items d) = Some x"
    using find_exists by blast
  with pk have "filter (\<lambda>i. hist_item_id h = item_id i) (items d) = [x]"
    by (simp add: primary_key_def filter_by_key)
  with x show ?thesis by (simp add: entry_def resolved_name_def)
qed

lemma join_all:
  assumes pk: "primary_key d" and refs: "\<forall>h \<in> set hs. list_ex (\<lambda>r. item_id r = hist_item_id h) (items d)"
  shows "concat (map (\<lambda>h. map (\<lambda>i. (item_name i, hist_delta h, hist_reason h, hist_created_at h))
                         (filter (\<lambda>i. hist_item_id h = item_id i) (items d))) hs)
         = map (entry d) hs"
  using refs by (induction hs) (simp_all add: join_one [OF pk])

lemma select_history_rows:
  assumes "primary_key d" and "references_ok d"
  shows "fst (select_history (connect d) start stop) =
           sort_key (\<lambda>(n, dl, r, t). t) (map (entry d) (filter (in_range start stop) (stock_history d)))"
proof -
  have "\<forall>h \<in> set (filter (in_range start stop) (stock_history d)).
          list_ex (\<lambda>r. item_id r = hist_item_id h) (items d)"
    using assms(2) by (simp add: references_ok_def list_all_iff)
  from join_all [OF assms(1) this] show ?thesis
    by (simp add: select_history_def connect_def in_range_def [abs_def])
qed

lemma select_history_none:
  "filter (\<lambda>h. start \<le> hist_created_at h \<and> hist_created_at h \<le> stop) (stock_history d) = [] \<Longrightarrow>
   fst (select_history (connect d) start stop) = []"
  by (simp add: select_history_def connect_def)



subsection \<open>The database after an adjustment\<close>

lemma find_map_same:
  "(\<And>x. P (f x) = P x) \<Longrightarrow> find P (map f xs) = map_option f (find P xs)"
  by (induction xs) simp_all

lemma both_writes_find:
  assumes "find (\<lambda>r. item_name r = name) (items d) = Some it"
  shows "find (\<lambda>r. item_name r = name) (items (both_writes d (item_id it) ns delta reason now)) =
           Some (it\<lparr>item_stock := ns, item_updated_at := now\<rparr>)"
proof -
  let ?upd = "\<lambda>r. if item_id r = item_id it
                   then r\<lparr>item_stock := ns, item_updated_at := now\<rparr> else r"
  have "find (\<lambda>r. item_name r = name) (map ?upd (items d)) =
          map_option ?upd (find (\<lambda>r. item_name r = name) (items d))"
    by (rule find_map_same) simp
  with assms show ?thesis by (simp add: both_writes_def)
qed

lemma both_writes_history:
  "stock_history (both_writes d iid ns delta reason now) =
     stock_history d @
       [\<lparr>hist_item_id = iid, hist_delta = delta, hist_reason = Some reason,
         hist_created_at = now\<rparr>]"
  by (simp add: both_writes_def)

lemma both_writes_ids:
  "map item_id (items (both_writes d iid ns delta reason now)) = map item_id (items d)"
  by (simp add: both_writes_def comp_def if_distrib [of item_id] cong: if_cong)

lemma stored_int64:
  "sqlite_integers d \<Longrightarrow> it \<in> set (items d) \<Longrightarrow> int64 (item_id it) \<and> int64 (item_stock it)"
  by (simp add: sqlite_integers_def list_all_iff)

lemma change_trace_snapshots:
  "\<forall>(s, snap) \<in> set (trace (change_item_stock now d name delta reason)).
     snap = d \<or> (s = Commit \<and> snap = store (change_item_stock now d name delta reason))"
proof (cases "find (\<lambda>r. item_name r = name) (items d)")
  case None
  then show ?thesis by (simp add: change_not_found)
next
  case (Some it)
  show ?thesis
  proof (cases "item_stock it + delta < 0")
    case True
    with Some show ?thesis by (simp add: change_insufficient)
  next
    case False
    then have nn: "0 \<le> item_stock it + delta" by simp
    show ?thesis
    proof (cases "int64 (item_stock it + delta) \<and> int64 (item_id it) \<and> int64 delta")
      case True
      with Some nn show ?thesis by (simp add: change_success)
    next
      case False
      with Some nn show ?thesis by (simp add: change_overflow)
    qed
  qed
qed

lemma run_calls_ids: "map item_id (items (run_calls d cs)) = map item_id (items d)"
proof (induction cs arbitrary: d)
  case Nil
  then show ?case by simp
next
  case (Cons c cs)
  obtain now name delta reason where c: "c = (now, name, delta, reason)"
    by (cases c) auto
  have "map item_id (items (store (change_item_stock now d name delta reason))) =
          map item_id (items d)"
    using change_store_cases [of now d name delta reason]
    by (auto simp add: both_writes_ids)
  with Cons.IH show ?case by (simp add: c)
qed

section \<open>The claims\<close>

subsection \<open>Rejected adjustments\<close>

text \<open>
  C5. When no item has the given name, \<open>change_item_stock\<close> returns the not-found
  message; the database is unchanged and the SELECT of line 83 is the only statement the
  call executes, so nothing is written to \<open>items\<close> or to \<open>stock_history\<close>.
\<close>

theorem unknown_name_not_found:
  assumes "find (\<lambda>r. item_name r = name) (items d) = None"
  shows "change_item_stock now d name delta reason =
           \<lparr>result = Inr (not_found_msg name), store = d,
            trace = [(SelectItemByName name, d)]\<rparr>"
  using assms by (rule change_not_found)

theorem unknown_name_not_found_witness:
  "find (\<lambda>r. item_name r = ''Mouse'') (items shop) = None \<and>
   change_item_stock ''2024-05-01 10:00:00'' shop ''Mouse'' (- 5) (Some ''sale'') =
     \<lparr>result = Inr (not_found_msg ''Mouse''), store = shop,
      trace = [(SelectItemByName ''Mouse'', shop)]\<rparr>"
proof -
  have h: "find (\<lambda>r. item_name r = ''Mouse'') (items shop) = None"
    by (simp add: shop_def init_db_def empty_db_def seed_item_def name_notebook_def
        name_mouse_def name_keyboard_def)
  from unknown_name_not_found [OF h] h show ?thesis by simp
qed

text \<open>
  C2. When the item exists with stock \<open>s\<close> and \<open>s + delta < 0\<close>, \<open>change_item_stock\<close>
  returns the insufficient-stock message, which carries \<open>s\<close>, the stock before the call;
  the database (stock and history) is unchanged, and the SELECT of line 83 is the only
  statement executed: the check of line 90 comes before any write.
\<close>

theorem insufficient_stock_rejected:
  assumes "find (\<lambda>r. item_name r = name) (items d) = Some it"
    and "item_stock it + delta < 0"
  shows "change_item_stock now d name delta reason =
           \<lparr>result = Inr (insufficient_msg (item_stock it)), store = d,
            trace = [(SelectItemByName name, d)]\<rparr>"
  using assms by (rule change_insufficient)

theorem insufficient_stock_rejected_witness:
  "find (\<lambda>r. item_name r = name_mouse) (items shop) =
     Some (seed_item 2 name_mouse 25000 50 ''2024-05-01 09:00:00'') \<and>
   (50::int) + (- 1000) < 0 \<and>
   change_item_stock ''2024-05-01 10:00:00'' shop name_mouse (- 1000) None =
     \<lparr>result = Inr (insufficient_head @ ''50'' @ counter_gae), store = shop,
      trace = [(SelectItemByName name_mouse, shop)]\<rparr>"
proof -
  let ?it = "seed_item 2 name_mouse 25000 50 ''2024-05-01 09:00:00''"
  have h: "find (\<lambda>r. item_name r = name_mouse) (items shop) = Some ?it"
    by (simp add: shop_def init_db_def empty_db_def seed_item_def name_notebook_def
        name_mouse_def name_keyboard_def)
  have s: "item_stock ?it + (- 1000) < 0"
    by (simp add: seed_item_def)
  have m: "insufficient_msg (item_stock ?it) = insufficient_head @ ''50'' @ counter_gae"
    by (simp add: insufficient_msg_def seed_item_def str_int_def str_nat.simps digit_def)
  from insufficient_stock_rejected [OF h s] h m show ?thesis by simp
qed


subsection \<open>Successful adjustments\<close>

text \<open>
  C4, as amended. In a database whose INTEGER columns hold 64-bit values, when the item
  exists with stock \<open>s\<close>, and \<open>delta\<close> and \<open>s + delta\<close> are within the signed 64-bit
  range with \<open>0 \<le> s + delta\<close>, \<open>change_item_stock\<close> succeeds. It returns the message
  showing \<open>s\<close>, \<open>s + delta\<close>, the delta and the reason; in the committed database the item
  has stock \<open>s + delta\<close> and \<open>updated_at = now\<close>, and the history is the old one followed by
  exactly one event, for this item, with the same delta, \<open>created_at = now\<close> (the same
  reading of the clock) and the given reason, or the empty string when there is none. The
  call executes the SELECT, the UPDATE, the INSERT and the commit, in this order.
\<close>

theorem adjustment_in_range_succeeds:
  assumes "sqlite_integers d"
    and "find (\<lambda>r. item_name r = name) (items d) = Some it"
    and "0 \<le> item_stock it + delta"
    and "int64 delta"
    and "int64 (item_stock it + delta)"
  shows "let out = change_item_stock now d name delta reason in
           result out = Inr (changed_msg name (item_stock it) (item_stock it + delta) delta
                               (or_else reason ''-'')) \<and>
           find (\<lambda>r. item_name r = name) (items (store out)) =
             Some (it\<lparr>item_stock := item_stock it + delta, item_updated_at := now\<rparr>) \<and>
           stock_history (store out) =
             stock_history d @
               [\<lparr>hist_item_id = item_id it, hist_delta = delta,
                 hist_reason = Some (or_else reason []), hist_created_at = now\<rparr>] \<and>
           map item_id (items (store out)) = map item_id (items d) \<and>
           map fst (trace out) =
             [SelectItemByName name,
              UpdateItemStock (item_stock it + delta) now (item_id it),
              InsertStockHistory (item_id it) delta (or_else reason []) now,
              Commit]"
proof -
  from assms(2) have "it \<in> set (items d)" by (simp add: find_by_name)
  with assms(1) have "int64 (item_id it)" by (simp add: stored_int64)
  from change_success [OF assms(2) assms(3) assms(5) this assms(4)]
  show ?thesis
    by (simp add: both_writes_find [OF assms(2)] both_writes_history both_writes_ids)
qed

theorem adjustment_in_range_succeeds_witness:
  "sqlite_integers shop \<and>
   find (\<lambda>r. item_name r = name_mouse) (items shop) =
     Some (seed_item 2 name_mouse 25000 50 ''2024-05-01 09:00:00'') \<and>
   (0::int) \<le> 50 + (- 5) \<and> int64 (- 5) \<and> int64 (50 + (- 5)) \<and>
   (let out = change_item_stock ''2024-05-01 10:00:00'' shop name_mouse (- 5) (Some ''sale'') in
      result out = Inr ([CHR 0x27] @ name_mouse @ [CHR 0x27] @ changed_1 @ ''50'' @ changed_2 @
                        ''45'' @ changed_3 @ ''-5'' @ changed_4 @ ''sale'' @ '' )'') \<and>
      find (\<lambda>r. item_name r = name_mouse) (items (store out)) =
        Some \<lparr>item_id = 2, item_name = name_mouse, item_price = 25000, item_stock = 45,
              item_created_at = ''2024-05-01 09:00:00'',
              item_updated_at = ''2024-05-01 10:00:00''\<rparr> \<and>
      stock_history (store out) =
        [\<lparr>hist_item_id = 2, hist_delta = - 5, hist_reason = Some ''sale'',
          hist_created_at = ''2024-05-01 10:00:00''\<rparr>])"
proof -
  let ?it = "seed_item 2 name_mouse 25000 50 ''2024-05-01 09:00:00''"
  have w: "sqlite_integers shop"
    by (simp add: sqlite_integers_def int64_def shop_def init_db_def empty_db_def seed_item_def)
  have h: "find (\<lambda>r. item_name r = name_mouse) (items shop) = Some ?it"
    by (simp add: shop_def init_db_def empty_db_def seed_item_def name_notebook_def
        name_mouse_def name_keyboard_def)
  have nn: "0 \<le> item_stock ?it + (- 5)" by (simp add: seed_item_def)
  have dl: "int64 (- 5)" by (simp add: int64_def)
  have ns: "int64 (item_stock ?it + (- 5))" by (simp add: seed_item_def int64_def)
  have hist: "stock_history shop = []"
    by (simp add: shop_def init_db_def empty_db_def)
  have m: "changed_msg name_mouse 50 45 (- 5) ''sale'' =
           [CHR 0x27] @ name_mouse @ [CHR 0x27] @ changed_1 @ ''50'' @ changed_2 @
             ''45'' @ changed_3 @ ''-5'' @ changed_4 @ ''sale'' @ '' )''"
    by (simp add: changed_msg_def seed_item_def str_int_def str_nat.simps digit_def or_else_def)
  from adjustment_in_range_succeeds [OF w h nn dl ns, of "''2024-05-01 10:00:00''" "Some ''sale''"]
  show ?thesis
    using w h dl
    by (simp add: Let_def m hist or_else_def seed_item_def int64_def)
qed

text \<open>
  C4 as stated fails: the seeded mouse has stock 50, so \<open>50 + 2 ^ 63 \<ge> 0\<close>, but the new
  stock does not fit an INTEGER of SQLite; the UPDATE of line 94 raises OverflowError,
  the call returns no message and the database is unchanged.
\<close>

theorem adjustment_overflow_counterexample:
  "find (\<lambda>r. item_name r = name_mouse) (items shop) =
     Some (seed_item 2 name_mouse 25000 50 ''2024-05-01 09:00:00'') \<and>
   (0::int) \<le> 50 + 2 ^ 63 \<and>
   result (change_item_stock ''2024-05-01 10:00:00'' shop name_mouse (2 ^ 63) None) =
     Inl OverflowError \<and>
   store (change_item_stock ''2024-05-01 10:00:00'' shop name_mouse (2 ^ 63) None) = shop"
proof -
  let ?it = "seed_item 2 name_mouse 25000 50 ''2024-05-01 09:00:00''"
  have h: "find (\<lambda>r. item_name r = name_mouse) (items shop) = Some ?it"
    by (simp add: shop_def init_db_def empty_db_def seed_item_def name_notebook_def
        name_mouse_def name_keyboard_def)
  have nn: "0 \<le> item_stock ?it + 2 ^ 63" by (simp add: seed_item_def)
  have ov: "\<not> (int64 (item_stock ?it + 2 ^ 63) \<and> int64 (item_id ?it) \<and> int64 (2 ^ 63))"
    by (simp add: int64_def)
  from change_overflow [OF h nn ov] h show ?thesis by simp
qed

text \<open>
  C7. In a database whose INTEGER columns hold 64-bit values, for an item whose stock is
  not negative (the data model's invariant), \<open>change_item_stock\<close> with delta 0 succeeds:
  the stock stays what it was, \<open>updated_at\<close> is set, and one event with delta 0 is
  appended to the history. Zero takes the same path as every other delta.
\<close>

theorem zero_delta_recorded:
  assumes "sqlite_integers d"
    and "find (\<lambda>r. item_name r = name) (items d) = Some it"
    and "0 \<le> item_stock it"
  shows "let out = change_item_stock now d name 0 reason in
           result out = Inr (changed_msg name (item_stock it) (item_stock it) 0
                               (or_else reason ''-'')) \<and>
           find (\<lambda>r. item_name r = name) (items (store out)) =
             Some (it\<lparr>item_updated_at := now\<rparr>) \<and>
           stock_history (store out) =
             stock_history d @
               [\<lparr>hist_item_id = item_id it, hist_delta = 0,
                 hist_reason = Some (or_else reason []), hist_created_at = now\<rparr>]"
proof -
  from assms(2) have "it \<in> set (items d)" by (simp add: find_by_name)
  with assms(1) have r: "int64 (item_id it)" "int64 (item_stock it + 0)"
    by (simp_all add: stored_int64)
  have z: "int64 0" by (simp add: int64_def)
  have nn: "0 \<le> item_stock it + 0" using assms(3) by simp
  from change_success [OF assms(2) nn r(2) r(1) z]
  show ?thesis
    by (simp add: both_writes_find [OF assms(2)] both_writes_history)
qed

theorem zero_delta_recorded_witness:
  "sqlite_integers shop \<and>
   find (\<lambda>r. item_name r = name_keyboard) (items shop) =
     Some (seed_item 3 name_keyboard 70000 30 ''2024-05-01 09:00:00'') \<and>
   (0::int) \<le> 30 \<and>
   (let out = change_item_stock ''2024-05-01 10:00:00'' shop name_keyboard 0 None in
      result out = Inr ([CHR 0x27] @ name_keyboard @ [CHR 0x27] @ changed_1 @ ''30'' @
                        changed_2 @ ''30'' @ changed_3 @ ''0'' @ changed_4 @ ''-'' @ '' )'') \<and>
      stock_history (store out) =
        [\<lparr>hist_item_id = 3, hist_delta = 0, hist_reason = Some [],
          hist_created_at = ''2024-05-01 10:00:00''\<rparr>])"
proof -
  let ?it = "seed_item 3 name_keyboard 70000 30 ''2024-05-01 09:00:00''"
  have w: "sqlite_integers shop"
    by (simp add: sqlite_integers_def int64_def shop_def init_db_def empty_db_def seed_item_def)
  have h: "find (\<lambda>r. item_name r = name_keyboard) (items shop) = Some ?it"
    by (simp add: shop_def init_db_def empty_db_def seed_item_def name_notebook_def
        name_mouse_def name_keyboard_def)
  have nn: "0 \<le> item_stock ?it" by (simp add: seed_item_def)
  have hist: "stock_history shop = []"
    by (simp add: shop_def init_db_def empty_db_def)
  have m: "changed_msg name_keyboard 30 30 0 ''-'' =
           [CHR 0x27] @ name_keyboard @ [CHR 0x27] @ changed_1 @ ''30'' @ changed_2 @
             ''30'' @ changed_3 @ ''0'' @ changed_4 @ ''-'' @ '' )''"
    by (simp add: changed_msg_def seed_item_def str_int_def str_nat.simps digit_def or_else_def)
  from zero_delta_recorded [OF w h nn, of "''2024-05-01 10:00:00''" None]
  show ?thesis
    using w h
    by (simp add: Let_def m hist or_else_def seed_item_def)
qed


text \<open>
  C3. The two writes of a successful call are committed together or not at all. Whatever
  the arguments, the database a call leaves is either the one it found or the one with
  both writes applied, and the latter only together with a normal result. When the item
  exists and the new stock is not negative but one of the two statements cannot be
  executed (the UPDATE or the INSERT raises), the call ends with the exception instead of
  a message and the database is the one it found. During the call, every other
  connection sees the database unchanged until the commit, and then both writes at once.
\<close>

theorem adjustment_all_or_nothing:
  "let out = change_item_stock now d name delta reason in
     (case find (\<lambda>r. item_name r = name) (items d) of
        None \<Rightarrow> store out = d
      | Some it \<Rightarrow>
          if item_stock it + delta < 0 then store out = d
          else if int64 (item_stock it + delta) \<and> int64 (item_id it) \<and> int64 delta
          then store out = both_writes d (item_id it) (item_stock it + delta) delta
                             (or_else reason []) now \<and>
               (\<exists>msg. result out = Inr msg)
          else store out = d \<and> result out = Inl OverflowError) \<and>
     (\<forall>(s, snap) \<in> set (trace out). snap = d \<or> (s = Commit \<and> snap = store out))"
proof -
  have "case find (\<lambda>r. item_name r = name) (items d) of
          None \<Rightarrow> store (change_item_stock now d name delta reason) = d
        | Some it \<Rightarrow>
            if item_stock it + delta < 0
            then store (change_item_stock now d name delta reason) = d
            else if int64 (item_stock it + delta) \<and> int64 (item_id it) \<and> int64 delta
            then store (change_item_stock now d name delta reason) =
                   both_writes d (item_id it) (item_stock it + delta) delta
                     (or_else reason []) now \<and>
                 (\<exists>msg. result (change_item_stock now d name delta reason) = Inr msg)
            else store (change_item_stock now d name delta reason) = d \<and>
                 result (change_item_stock now d name delta reason) = Inl OverflowError"
  proof (cases "find (\<lambda>r. item_name r = name) (items d)")
    case None
    then show ?thesis by (simp add: change_not_found)
  next
    case (Some it)
    show ?thesis
    proof (cases "item_stock it + delta < 0")
      case True
      with Some show ?thesis by (simp add: change_insufficient)
    next
      case False
      then have nn: "0 \<le> item_stock it + delta" by simp
      show ?thesis
      proof (cases "int64 (item_stock it + delta) \<and> int64 (item_id it) \<and> int64 delta")
        case True
        with Some nn False show ?thesis by (simp add: change_success)
      next
        case ov: False
        from change_overflow [OF Some nn ov] Some False ov show ?thesis by simp
      qed
    qed
  qed
  with change_trace_snapshots [of now d name delta reason] show ?thesis
    by (simp add: Let_def)
qed

text \<open>
  The witness takes the three paths on which a write is attempted: both statements run
  and are committed; the UPDATE raises; the UPDATE runs and the INSERT raises.
\<close>

theorem adjustment_all_or_nothing_witness:
  "store (change_item_stock ''2024-05-01 10:00:00'' shop name_mouse (- 5) (Some ''sale'')) =
     both_writes shop 2 45 (- 5) ''sale'' ''2024-05-01 10:00:00'' \<and>
   store (change_item_stock ''2024-05-01 10:00:00'' shop name_mouse (2 ^ 63) None) = shop \<and>
   result (change_item_stock ''2024-05-01 10:00:00'' shop name_mouse (2 ^ 63) None) =
     Inl OverflowError \<and>
   find (\<lambda>r. item_name r = ''crate'') (items backorder) =
     Some (seed_item 1 ''crate'' 100 (- 10) ''2024-05-01 09:00:00'') \<and>
   int64 (- 10 + 2 ^ 63) \<and> \<not> int64 (2 ^ 63) \<and>
   store (change_item_stock ''2024-05-01 10:00:00'' backorder ''crate'' (2 ^ 63) None) =
     backorder \<and>
   result (change_item_stock ''2024-05-01 10:00:00'' backorder ''crate'' (2 ^ 63) None) =
     Inl OverflowError \<and>
   trace (change_item_stock ''2024-05-01 10:00:00'' backorder ''crate'' (2 ^ 63) None) =
     [(SelectItemByName ''crate'', backorder),
      (UpdateItemStock (- 10 + 2 ^ 63) ''2024-05-01 10:00:00'' 1, backorder)]"
proof -
  have m: "find (\<lambda>r. item_name r = name_mouse) (items shop) =
             Some (seed_item 2 name_mouse 25000 50 ''2024-05-01 09:00:00'')"
    by (simp add: shop_def init_db_def empty_db_def seed_item_def name_notebook_def
        name_mouse_def name_keyboard_def)
  have c: "find (\<lambda>r. item_name r = ''crate'') (items backorder) =
             Some (seed_item 1 ''crate'' 100 (- 10) ''2024-05-01 09:00:00'')"
    by (simp add: backorder_def seed_item_def)
  have r: "int64 (- 10 + 2 ^ 63)" "\<not> int64 (2 ^ 63)"
    by (simp_all add: int64_def)
  from adjustment_all_or_nothing
         [of "''2024-05-01 10:00:00''" shop name_mouse "- 5" "Some ''sale''"] m
  have a: "store (change_item_stock ''2024-05-01 10:00:00'' shop name_mouse (- 5)
                    (Some ''sale'')) =
             both_writes shop 2 45 (- 5) ''sale'' ''2024-05-01 10:00:00''"
    by (simp add: Let_def seed_item_def int64_def or_else_def)
  from adjustment_all_or_nothing [of "''2024-05-01 10:00:00''" shop name_mouse "2 ^ 63" None] m
  have b: "store (change_item_stock ''2024-05-01 10:00:00'' shop name_mouse (2 ^ 63) None) =
             shop \<and>
           result (change_item_stock ''2024-05-01 10:00:00'' shop name_mouse (2 ^ 63) None) =
             Inl OverflowError"
    by (simp add: Let_def seed_item_def int64_def)
  from adjustment_all_or_nothing
         [of "''2024-05-01 10:00:00''" backorder "''crate''" "2 ^ 63" None] c
  have e: "store (change_item_stock ''2024-05-01 10:00:00'' backorder ''crate'' (2 ^ 63)
                    None) = backorder \<and>
           result (change_item_stock ''2024-05-01 10:00:00'' backorder ''crate'' (2 ^ 63)
                     None) = Inl OverflowError"
    by (simp add: Let_def seed_item_def int64_def)
  have nn: "0 \<le> item_stock (seed_item 1 ''crate'' 100 (- 10) ''2024-05-01 09:00:00'') + 2 ^ 63"
    by (simp add: seed_item_def)
  have ov: "\<not> (int64 (item_stock (seed_item 1 ''crate'' 100 (- 10) ''2024-05-01 09:00:00'')
                        + 2 ^ 63) \<and>
                 int64 (item_id (seed_item 1 ''crate'' 100 (- 10) ''2024-05-01 09:00:00'')) \<and>
                 int64 (2 ^ 63))"
    by (simp add: int64_def)
  have t: "trace (change_item_stock ''2024-05-01 10:00:00'' backorder ''crate'' (2 ^ 63)
                    None) =
             [(SelectItemByName ''crate'', backorder),
              (UpdateItemStock (- 10 + 2 ^ 63) ''2024-05-01 10:00:00'' 1, backorder)]"
    unfolding change_overflow [OF c nn ov] by (simp add: seed_item_def int64_def)
  from a b c r e t show ?thesis by simp
qed

text \<open>
  C10. An empty reason is the same call as no reason: the two outcomes are equal (result,
  database and statements). When the call succeeds, the returned message is the text of
  line 99 with the dash in the place of the reason (it ends with the dash, a space and a
  closing parenthesis), the stored event has the empty string as its reason, and the line
  the history prints for that event, under whatever item name, ends with the dash.
\<close>

theorem empty_reason_same_as_absent:
  "change_item_stock now d name delta (Some []) = change_item_stock now d name delta None \<and>
   (find (\<lambda>r. item_name r = name) (items d) = Some it \<and> 0 \<le> item_stock it + delta \<and>
    int64 (item_stock it + delta) \<and> int64 (item_id it) \<and> int64 delta \<longrightarrow>
      result (change_item_stock now d name delta (Some [])) =
        Inr ([CHR 0x27] @ name @ [CHR 0x27] @ changed_1 @ str_int (item_stock it) @
             changed_2 @ str_int (item_stock it + delta) @ changed_3 @ str_int delta @
             changed_4 @ ''-'' @ '' )'') \<and>
      stock_history (store (change_item_stock now d name delta (Some []))) =
        stock_history d @
          [\<lparr>hist_item_id = item_id it, hist_delta = delta, hist_reason = Some [],
            hist_created_at = now\<rparr>] \<and>
      (\<forall>n. format_line
             (n, delta,
              hist_reason (last (stock_history
                (store (change_item_stock now d name delta (Some []))))), now) =
           ''['' @ now @ ''] '' @ n @ line_1 @ str_int delta @ line_2 @ ''-''))"
proof -
  have same: "change_item_stock now d name delta (Some []) =
              change_item_stock now d name delta None"
  proof -
    have e: "\<And>x. or_else (Some []) x = or_else None x"
      by (simp add: or_else_def)
    show ?thesis by (simp only: change_item_stock_def e)
  qed
  have ok: "result (change_item_stock now d name delta (Some [])) =
        Inr ([CHR 0x27] @ name @ [CHR 0x27] @ changed_1 @ str_int (item_stock it) @
             changed_2 @ str_int (item_stock it + delta) @ changed_3 @ str_int delta @
             changed_4 @ ''-'' @ '' )'') \<and>
      stock_history (store (change_item_stock now d name delta (Some []))) =
        stock_history d @
          [\<lparr>hist_item_id = item_id it, hist_delta = delta, hist_reason = Some [],
            hist_created_at = now\<rparr>] \<and>
      (\<forall>n. format_line
             (n, delta,
              hist_reason (last (stock_history
                (store (change_item_stock now d name delta (Some []))))), now) =
           ''['' @ now @ ''] '' @ n @ line_1 @ str_int delta @ line_2 @ ''-'')"
    if f: "find (\<lambda>r. item_name r = name) (items d) = Some it"
      and nn: "0 \<le> item_stock it + delta"
      and r: "int64 (item_stock it + delta)" "int64 (item_id it)" "int64 delta"
    using change_success [OF f nn r, of now "Some []"]
    by (simp add: both_writes_history or_else_def format_line_def changed_msg_def)
  from same ok show ?thesis by blast
qed

text \<open>
  The witness adds 7 to the seeded mouse with an empty reason. The message and the history
  line are given byte by byte: the message reads ``'mauseu' jaegoga 50gae -> 57gaero
  byeongyeongdoeeotsseumnida. (byeondong: 7, sayu: - )'' and the line, which a query of
  that day returns afterwards, ``[2024-05-01 10:00:00] mauseu | byeonhwaryang: 7 |
  sayu: -''.
\<close>

theorem empty_reason_same_as_absent_witness:
  "find (\<lambda>r. item_name r = name_mouse) (items shop) =
     Some (seed_item 2 name_mouse 25000 50 ''2024-05-01 09:00:00'') \<and>
   (0::int) \<le> 50 + 7 \<and> int64 (50 + 7) \<and> int64 2 \<and> int64 7 \<and>
   change_item_stock ''2024-05-01 10:00:00'' shop name_mouse 7 (Some []) =
     change_item_stock ''2024-05-01 10:00:00'' shop name_mouse 7 None \<and>
   result (change_item_stock ''2024-05-01 10:00:00'' shop name_mouse 7 (Some [])) =
     Inr [CHR 0x27, CHR 0xEB, CHR 0xA7, CHR 0x88, CHR 0xEC, CHR 0x9A, CHR 0xB0, CHR 0xEC,
           CHR 0x8A, CHR 0xA4, CHR 0x27, CHR 0x20, CHR 0xEC, CHR 0x9E, CHR 0xAC, CHR 0xEA,
           CHR 0xB3, CHR 0xA0, CHR 0xEA, CHR 0xB0, CHR 0x80, CHR 0x20, CHR 0x35, CHR 0x30,
           CHR 0xEA, CHR 0xB0, CHR 0x9C, CHR 0x20, CHR 0xE2, CHR 0x86, CHR 0x92, CHR 0x20,
           CHR 0x35, CHR 0x37, CHR 0xEA, CHR 0xB0, CHR 0x9C, CHR 0xEB, CHR 0xA1, CHR 0x9C,
           CHR 0x20, CHR 0xEB, CHR 0xB3, CHR 0x80, CHR 0xEA, CHR 0xB2, CHR 0xBD, CHR 0xEB,
           CHR 0x90, CHR 0x98, CHR 0xEC, CHR 0x97, CHR 0x88, CHR 0xEC, CHR 0x8A, CHR 0xB5,
           CHR 0xEB, CHR 0x8B, CHR 0x88, CHR 0xEB, CHR 0x8B, CHR 0xA4, CHR 0x2E, CHR 0x20,
           CHR 0x28, CHR 0xEB, CHR 0xB3, CHR 0x80, CHR 0xEB, CHR 0x8F, CHR 0x99, CHR 0x3A,
           CHR 0x20, CHR 0x37, CHR 0x2C, CHR 0x20, CHR 0xEC, CHR 0x82, CHR 0xAC, CHR 0xEC,
           CHR 0x9C, CHR 0xA0, CHR 0x3A, CHR 0x20, CHR 0x2D, CHR 0x20, CHR 0x29] \<and>
   stock_history (store (change_item_stock ''2024-05-01 10:00:00'' shop name_mouse 7 (Some []))) =
     [\<lparr>hist_item_id = 2, hist_delta = 7, hist_reason = Some [],
       hist_created_at = ''2024-05-01 10:00:00''\<rparr>] \<and>
   result (get_stock_history_by_date may_first
             (store (change_item_stock ''2024-05-01 10:00:00'' shop name_mouse 7 (Some [])))
             ''2024-05-01'') =
     Inr [CHR 0x5B, CHR 0x32, CHR 0x30, CHR 0x32, CHR 0x34, CHR 0x2D, CHR 0x30, CHR 0x35,
           CHR 0x2D, CHR 0x30, CHR 0x31, CHR 0x20, CHR 0x31, CHR 0x30, CHR 0x3A, CHR 0x30,
           CHR 0x30, CHR 0x3A, CHR 0x30, CHR 0x30, CHR 0x5D, CHR 0x20, CHR 0xEB, CHR 0xA7,
           CHR 0x88, CHR 0xEC, CHR 0x9A, CHR 0xB0, CHR 0xEC, CHR 0x8A, CHR 0xA4, CHR 0x20,
           CHR 0x7C, CHR 0x20, CHR 0xEB, CHR 0xB3, CHR 0x80, CHR 0xED, CHR 0x99, CHR 0x94,
           CHR 0xEB, CHR 0x9F, CHR 0x89, CHR 0x3A, CHR 0x20, CHR 0x37, CHR 0x20, CHR 0x7C,
           CHR 0x20, CHR 0xEC, CHR 0x82, CHR 0xAC, CHR 0xEC, CHR 0x9C, CHR 0xA0, CHR 0x3A,
           CHR 0x20, CHR 0x2D]"
proof -
  let ?it = "seed_item 2 name_mouse 25000 50 ''2024-05-01 09:00:00''"
  let ?call = "change_item_stock ''2024-05-01 10:00:00'' shop name_mouse 7 (Some [])"
  have h: "find (\<lambda>r. item_name r = name_mouse) (items shop) = Some ?it"
    by (simp add: shop_def init_db_def empty_db_def seed_item_def name_notebook_def
        name_mouse_def name_keyboard_def)
  have r: "int64 (50 + 7)" "int64 2" "int64 7"
    by (simp_all add: int64_def)
  have hist: "stock_history shop = []"
    by (simp add: shop_def init_db_def empty_db_def)
  from empty_reason_same_as_absent
         [of "''2024-05-01 10:00:00''" shop name_mouse 7 ?it] h r
  have k: "?call = change_item_stock ''2024-05-01 10:00:00'' shop name_mouse 7 None"
    "result ?call =
       Inr ([CHR 0x27] @ name_mouse @ [CHR 0x27] @ changed_1 @ str_int 50 @
            changed_2 @ str_int 57 @ changed_3 @ str_int 7 @ changed_4 @ ''-'' @ '' )'')"
    "stock_history (store ?call) =
       [\<lparr>hist_item_id = 2, hist_delta = 7, hist_reason = Some [],
         hist_created_at = ''2024-05-01 10:00:00''\<rparr>]"
    by (auto simp add: seed_item_def hist)
  have m: "[CHR 0x27] @ name_mouse @ [CHR 0x27] @ changed_1 @ str_int 50 @
            changed_2 @ str_int 57 @ changed_3 @ str_int 7 @ changed_4 @ ''-'' @ '' )'' =
         [CHR 0x27, CHR 0xEB, CHR 0xA7, CHR 0x88, CHR 0xEC, CHR 0x9A, CHR 0xB0, CHR 0xEC,
           CHR 0x8A, CHR 0xA4, CHR 0x27, CHR 0x20, CHR 0xEC, CHR 0x9E, CHR 0xAC, CHR 0xEA,
           CHR 0xB3, CHR 0xA0, CHR 0xEA, CHR 0xB0, CHR 0x80, CHR 0x20, CHR 0x35, CHR 0x30,
           CHR 0xEA, CHR 0xB0, CHR 0x9C, CHR 0x20, CHR 0xE2, CHR 0x86, CHR 0x92, CHR 0x20,
           CHR 0x35, CHR 0x37, CHR 0xEA, CHR 0xB0, CHR 0x9C, CHR 0xEB, CHR 0xA1, CHR 0x9C,
           CHR 0x20, CHR 0xEB, CHR 0xB3, CHR 0x80, CHR 0xEA, CHR 0xB2, CHR 0xBD, CHR 0xEB,
           CHR 0x90, CHR 0x98, CHR 0xEC, CHR 0x97, CHR 0x88, CHR 0xEC, CHR 0x8A, CHR 0xB5,
           CHR 0xEB, CHR 0x8B, CHR 0x88, CHR 0xEB, CHR 0x8B, CHR 0xA4, CHR 0x2E, CHR 0x20,
           CHR 0x28, CHR 0xEB, CHR 0xB3, CHR 0x80, CHR 0xEB, CHR 0x8F, CHR 0x99, CHR 0x3A,
           CHR 0x20, CHR 0x37, CHR 0x2C, CHR 0x20, CHR 0xEC, CHR 0x82, CHR 0xAC, CHR 0xEC,
           CHR 0x9C, CHR 0xA0, CHR 0x3A, CHR 0x20, CHR 0x2D, CHR 0x20, CHR 0x29]"
    by (simp add: name_mouse_def changed_1_def changed_2_def changed_3_def changed_4_def
        str_int_def str_nat.simps digit_def)
  have nn: "0 \<le> item_stock ?it + 7" by (simp add: seed_item_def)
  have r': "int64 (item_stock ?it + 7)" "int64 (item_id ?it)" "int64 7"
    by (simp_all add: seed_item_def int64_def)
  have st: "store ?call = both_writes shop 2 57 7 [] ''2024-05-01 10:00:00''"
    unfolding change_success [OF h nn r', of "''2024-05-01 10:00:00''" "Some []"]
    by (simp add: seed_item_def or_else_def)
  have q: "result (get_stock_history_by_date may_first (store ?call) ''2024-05-01'') =
         Inr [CHR 0x5B, CHR 0x32, CHR 0x30, CHR 0x32, CHR 0x34, CHR 0x2D, CHR 0x30, CHR 0x35,
           CHR 0x2D, CHR 0x30, CHR 0x31, CHR 0x20, CHR 0x31, CHR 0x30, CHR 0x3A, CHR 0x30,
           CHR 0x30, CHR 0x3A, CHR 0x30, CHR 0x30, CHR 0x5D, CHR 0x20, CHR 0xEB, CHR 0xA7,
           CHR 0x88, CHR 0xEC, CHR 0x9A, CHR 0xB0, CHR 0xEC, CHR 0x8A, CHR 0xA4, CHR 0x20,
           CHR 0x7C, CHR 0x20, CHR 0xEB, CHR 0xB3, CHR 0x80, CHR 0xED, CHR 0x99, CHR 0x94,
           CHR 0xEB, CHR 0x9F, CHR 0x89, CHR 0x3A, CHR 0x20, CHR 0x37, CHR 0x20, CHR 0x7C,
           CHR 0x20, CHR 0xEC, CHR 0x82, CHR 0xAC, CHR 0xEC, CHR 0x9C, CHR 0xA0, CHR 0x3A,
           CHR 0x20, CHR 0x2D]"
    unfolding st
    by (simp add: get_stock_history_by_date_def may_first_def select_history_def connect_def
        executed_def returned_def close_def both_writes_def shop_def init_db_def empty_db_def
        seed_item_def name_notebook_def name_mouse_def name_keyboard_def line_1_def line_2_def
        less_eq_char_def less_char_def format_line_def or_else_def str_int_def str_nat.simps
        digit_def)
  from h r k(1) k(2) [unfolded m] k(3) q show ?thesis by simp
qed

subsection \<open>The ledger invariant\<close>

text \<open>
  C1. The invariant of the ledger, that the stock of every item is its initial stock plus
  the sum of the deltas of the events recorded for it, is kept by every sequence of calls
  of \<open>change_item_stock\<close>, and the items stay the same ones. In particular, after any
  calls on an item, the successful ones with their events and the rejected ones without,
  its stock is the initial stock plus the sum of all deltas recorded for it.
\<close>

theorem ledger_invariant_preserved:
  assumes "ledger_ok initial d"
  shows "ledger_ok initial (run_calls d cs) \<and>
         map item_id (items (run_calls d cs)) = map item_id (items d)"
  using assms by (simp add: run_calls_ledger run_calls_ids)

theorem ledger_invariant_preserved_witness:
  "ledger_ok seed_stock shop \<and>
   ledger_ok seed_stock
     (run_calls shop
        [(''2024-05-01 10:00:00'', name_mouse, - 5, Some ''sale''),
         (''2024-05-01 10:05:00'', name_mouse, - 1000, None),
         (''2024-05-01 10:10:00'', name_mouse, 3, None)]) \<and>
   map item_stock (items (run_calls shop
        [(''2024-05-01 10:00:00'', name_mouse, - 5, Some ''sale''),
         (''2024-05-01 10:05:00'', name_mouse, - 1000, None),
         (''2024-05-01 10:10:00'', name_mouse, 3, None)])) = [10, 48, 30] \<and>
   recorded_deltas (run_calls shop
        [(''2024-05-01 10:00:00'', name_mouse, - 5, Some ''sale''),
         (''2024-05-01 10:05:00'', name_mouse, - 1000, None),
         (''2024-05-01 10:10:00'', name_mouse, 3, None)]) 2 = [- 5, 3]"
proof -
  let ?cs = "[(''2024-05-01 10:00:00'', name_mouse, - 5, Some ''sale''),
              (''2024-05-01 10:05:00'', name_mouse, - 1000, None),
              (''2024-05-01 10:10:00'', name_mouse, 3, None)]"
  have h: "ledger_ok seed_stock shop"
    by (simp add: ledger_ok_def recorded_deltas_def seed_stock_def shop_def init_db_def
        empty_db_def seed_item_def)
  have v: "run_calls shop ?cs =
       \<lparr>items =
          [seed_item 1 name_notebook 1200000 10 ''2024-05-01 09:00:00'',
           (seed_item 2 name_mouse 25000 48 ''2024-05-01 09:00:00'')
             \<lparr>item_updated_at := ''2024-05-01 10:10:00''\<rparr>,
           seed_item 3 name_keyboard 70000 30 ''2024-05-01 09:00:00''],
        stock_history =
          [\<lparr>hist_item_id = 2, hist_delta = - 5, hist_reason = Some ''sale'',
            hist_created_at = ''2024-05-01 10:00:00''\<rparr>,
           \<lparr>hist_item_id = 2, hist_delta = 3, hist_reason = Some [],
            hist_created_at = ''2024-05-01 10:10:00''\<rparr>]\<rparr>"
    by (simp add: shop_def init_db_def empty_db_def seed_item_def name_notebook_def
        name_mouse_def name_keyboard_def change_item_stock_def connect_def select_item_def
        executed_def returned_def close_def update_item_stock_def insert_stock_history_def
        commit_def or_else_def int64_def Let_def)
  have a: "ledger_ok seed_stock (run_calls shop ?cs)"
    using ledger_invariant_preserved [OF h, of ?cs] by (rule conjunct1)
  have b: "map item_stock (items (run_calls shop ?cs)) = [10, 48, 30]"
    unfolding v by (simp add: seed_item_def)
  have c: "recorded_deltas (run_calls shop ?cs) 2 = [- 5, 3]"
    unfolding v by (simp add: recorded_deltas_def)
  from h a b c show ?thesis by (intro conjI)
qed


subsection \<open>The history of a day\<close>




text \<open>
  C8. When the date parses and no event of the history lies in the inclusive range of
  the day, \<open>get_stock_history_by_date\<close> returns the no-history message for that date: a
  normal result, which is neither the invalid-date message nor the empty string that
  joining an empty list of lines would give. The database is unchanged.
\<close>

theorem empty_day_signal:
  assumes "day_range date = Some (start, stop)"
    and "filter (in_range start stop) (stock_history d) = []"
  shows "result (get_stock_history_by_date day_range d date) = Inr (no_history_msg date) \<and>
         no_history_msg date \<noteq> invalid_date_msg \<and>
         no_history_msg date \<noteq> join_lines [] \<and>
         store (get_stock_history_by_date day_range d date) = d"
proof -
  from assms(2) have "fst (select_history (connect d) start stop) = []"
    by (simp add: select_history_none in_range_def [abs_def])
  then show ?thesis
    by (simp add: history_parsed [where day_range = day_range and date = date, OF assms(1)] no_history_not_invalid no_history_not_empty)
qed

theorem empty_day_signal_witness:
  "may_first ''2024-05-01'' = Some (''2024-05-01 00:00:00'', ''2024-05-01 23:59:59'') \<and>
   filter (in_range ''2024-05-01 00:00:00'' ''2024-05-01 23:59:59'') (stock_history shop) = [] \<and>
   result (get_stock_history_by_date may_first shop ''2024-05-01'') =
     Inr (''2024-05-01'' @ no_history_tail)"
proof -
  have p: "may_first ''2024-05-01'' = Some (''2024-05-01 00:00:00'', ''2024-05-01 23:59:59'')"
    by (simp add: may_first_def)
  have e: "filter (in_range ''2024-05-01 00:00:00'' ''2024-05-01 23:59:59'')
             (stock_history shop) = []"
    by (simp add: shop_def init_db_def empty_db_def)
  from empty_day_signal [where day_range = may_first and date = "''2024-05-01''", OF p e] p e show ?thesis
    by (simp add: no_history_msg_def)
qed

text \<open>
  C9. In a database where \<open>items.id\<close> is a key and every event refers to an item, when
  the date parses and some event lies in the inclusive range of the day,
  \<open>get_stock_history_by_date\<close> returns the lines of exactly the events in that range,
  joined by newlines and in ascending order of \<open>created_at\<close>. The line of an event shows
  its timestamp, the name the item has in \<open>items\<close> at the time of the query, the delta,
  and the reason, with a dash when the reason is empty or NULL. The database is
  unchanged.
\<close>

theorem history_lines_sorted:
  assumes "primary_key d"
    and "references_ok d"
    and "day_range date = Some (start, stop)"
    and "filter (in_range start stop) (stock_history d) \<noteq> []"
  shows "\<exists>rows.
           result (get_stock_history_by_date day_range d date) =
             Inr (join_lines (map format_line rows)) \<and>
           mset rows = mset (map (entry d) (filter (in_range start stop) (stock_history d))) \<and>
           sorted (map (\<lambda>(n, dl, r, t). t) rows) \<and>
           (\<forall>(n, dl, r, t) \<in> set rows.
              format_line (n, dl, r, t) =
                ''['' @ t @ ''] '' @ n @ line_1 @ str_int dl @ line_2 @
                (if r = None \<or> r = Some [] then ''-'' else the r)) \<and>
           store (get_stock_history_by_date day_range d date) = d"
proof -
  let ?evs = "filter (in_range start stop) (stock_history d)"
  let ?rows = "sort_key (\<lambda>(n, dl, r, t). t) (map (entry d) ?evs)"
  have rows: "fst (select_history (connect d) start stop) = ?rows"
    using assms(1,2) by (rule select_history_rows)
  from assms(4) have ne: "?rows \<noteq> []"
    by (metis length_0_conv length_map length_sort)
  have res: "result (get_stock_history_by_date day_range d date) =
               Inr (join_lines (map format_line ?rows))"
    using ne by (simp add: history_parsed [where day_range = day_range and date = date, OF assms(3)] rows)
  have fmt: "\<forall>(n, dl, r, t) \<in> set ?rows.
               format_line (n, dl, r, t) =
                 ''['' @ t @ ''] '' @ n @ line_1 @ str_int dl @ line_2 @
                 (if r = None \<or> r = Some [] then ''-'' else the r)"
    by (auto simp add: format_line_def or_else_def split: option.splits)
  have st: "store (get_stock_history_by_date day_range d date) = d"
    by (simp add: history_parsed [where day_range = day_range and date = date, OF assms(3)])
  have "mset ?rows = mset (map (entry d) ?evs)" by simp
  moreover have "sorted (map (\<lambda>(n, dl, r, t). t) ?rows)" by (rule sorted_sort_key)
  ultimately show ?thesis using res fmt st by blast
qed

theorem history_lines_sorted_witness:
  "primary_key busy_shop \<and> references_ok busy_shop \<and>
   may_first ''2024-05-01'' = Some (''2024-05-01 00:00:00'', ''2024-05-01 23:59:59'') \<and>
   filter (in_range ''2024-05-01 00:00:00'' ''2024-05-01 23:59:59'') (stock_history busy_shop) =
     [\<lparr>hist_item_id = 2, hist_delta = - 5, hist_reason = Some ''sale'',
       hist_created_at = ''2024-05-01 10:00:00''\<rparr>,
      \<lparr>hist_item_id = 3, hist_delta = 3, hist_reason = Some [],
       hist_created_at = ''2024-05-01 08:30:00''\<rparr>] \<and>
   (\<exists>rows.
      result (get_stock_history_by_date may_first busy_shop ''2024-05-01'') =
        Inr (join_lines (map format_line rows)) \<and>
      mset rows = {#(name_mouse, - 5, Some ''sale'', ''2024-05-01 10:00:00''),
                    (name_keyboard, 3, Some [], ''2024-05-01 08:30:00'')#} \<and>
      sorted (map (\<lambda>(n, dl, r, t). t) rows)) \<and>
   result (get_stock_history_by_date may_first busy_shop ''2024-05-01'') =
     Inr (''[2024-05-01 08:30:00] '' @ name_keyboard @ line_1 @ ''3'' @ line_2 @ ''-'' @
          [CHR 0x0A] @
          ''[2024-05-01 10:00:00] '' @ name_mouse @ line_1 @ ''-5'' @ line_2 @ ''sale'')"
proof -
  have pk: "primary_key busy_shop"
    by (simp add: primary_key_def busy_shop_def shop_def init_db_def empty_db_def seed_item_def)
  have refs: "references_ok busy_shop"
    by (simp add: references_ok_def busy_shop_def shop_def init_db_def empty_db_def
        seed_item_def)
  have p: "may_first ''2024-05-01'' = Some (''2024-05-01 00:00:00'', ''2024-05-01 23:59:59'')"
    by (simp add: may_first_def)
  have evs: "filter (in_range ''2024-05-01 00:00:00'' ''2024-05-01 23:59:59'')
               (stock_history busy_shop) =
     [\<lparr>hist_item_id = 2, hist_delta = - 5, hist_reason = Some ''sale'',
       hist_created_at = ''2024-05-01 10:00:00''\<rparr>,
      \<lparr>hist_item_id = 3, hist_delta = 3, hist_reason = Some [],
       hist_created_at = ''2024-05-01 08:30:00''\<rparr>]"
    by (simp add: in_range_def busy_shop_def shop_def init_db_def empty_db_def
        less_eq_char_def less_char_def)
  have ne: "filter (in_range ''2024-05-01 00:00:00'' ''2024-05-01 23:59:59'')
              (stock_history busy_shop) \<noteq> []"
    by (simp add: evs)
  have e1: "entry busy_shop
              \<lparr>hist_item_id = 2, hist_delta = - 5, hist_reason = Some ''sale'',
                hist_created_at = ''2024-05-01 10:00:00''\<rparr> =
            (name_mouse, - 5, Some ''sale'', ''2024-05-01 10:00:00'')"
    by (simp add: entry_def resolved_name_def busy_shop_def shop_def init_db_def empty_db_def
        seed_item_def)
  have e2: "entry busy_shop
              \<lparr>hist_item_id = 3, hist_delta = 3, hist_reason = Some [],
                hist_created_at = ''2024-05-01 08:30:00''\<rparr> =
            (name_keyboard, 3, Some [], ''2024-05-01 08:30:00'')"
    by (simp add: entry_def resolved_name_def busy_shop_def shop_def init_db_def empty_db_def
        seed_item_def)
  from history_lines_sorted
         [where day_range = may_first and date = "''2024-05-01''", OF pk refs p ne]
  obtain rows where
    r: "result (get_stock_history_by_date may_first busy_shop ''2024-05-01'') =
          Inr (join_lines (map format_line rows))"
    and m: "mset rows =
          mset (map (entry busy_shop)
            (filter (in_range ''2024-05-01 00:00:00'' ''2024-05-01 23:59:59'')
               (stock_history busy_shop)))"
    and s: "sorted (map (\<lambda>(n, dl, r, t). t) rows)"
    by blast
  from m have m': "mset rows = {#(name_mouse, - 5, Some ''sale'', ''2024-05-01 10:00:00''),
                                 (name_keyboard, 3, Some [], ''2024-05-01 08:30:00'')#}"
    by (simp add: evs e1 e2)
  have v: "result (get_stock_history_by_date may_first busy_shop ''2024-05-01'') =
     Inr (''[2024-05-01 08:30:00] '' @ name_keyboard @ line_1 @ ''3'' @ line_2 @ ''-'' @
          [CHR 0x0A] @
          ''[2024-05-01 10:00:00] '' @ name_mouse @ line_1 @ ''-5'' @ line_2 @ ''sale'')"
    by (simp add: get_stock_history_by_date_def p select_history_def connect_def executed_def
        returned_def close_def busy_shop_def shop_def init_db_def empty_db_def seed_item_def
        less_eq_char_def less_char_def format_line_def or_else_def str_int_def str_nat.simps
        digit_def)
  from r m' s have "\<exists>rows.
      result (get_stock_history_by_date may_first busy_shop ''2024-05-01'') =
        Inr (join_lines (map format_line rows)) \<and>
      mset rows = {#(name_mouse, - 5, Some ''sale'', ''2024-05-01 10:00:00''),
                    (name_keyboard, 3, Some [], ''2024-05-01 08:30:00'')#} \<and>
      sorted (map (\<lambda>(n, dl, r, t). t) rows)"
    by blast
  with pk refs p evs v show ?thesis by (intro conjI)
qed

end
